theory Spec2Isabelle
  imports Main "HOL-Library.Word"
begin

section \<open>The todo list component: state, operations and view\<close>

text \<open>
  The component \<^verbatim>\<open>App\<close> keeps two pieces of state: the array \<^verbatim>\<open>tasks\<close> and the string
  \<^verbatim>\<open>inputValue\<close>. Every handler runs to completion on a snapshot of both and
  installs the next snapshot, so a handler is a function from state to state.
\<close>

subsection \<open>Strings\<close>

text \<open>
  A JavaScript string is a sequence of 16-bit code units. Literals of the source are
  ASCII and are written with \<open>js\<close>.
\<close>

type_synonym jsstring = "16 word list"

definition js :: "string \<Rightarrow> jsstring" where
  "js s = map (\<lambda>c. of_nat (of_char c)) s"

text \<open>
  \<^verbatim>\<open>String.prototype.trim\<close> removes, from both ends, the code units that ECMAScript
  calls WhiteSpace or LineTerminator: TAB, LF, VT, FF, CR, SPACE, NBSP, U+1680,
  U+2000 to U+200A, U+2028, U+2029, U+202F, U+205F, U+3000 and U+FEFF.
\<close>

definition isWhiteSpace :: "16 word \<Rightarrow> bool" where
  "isWhiteSpace c \<longleftrightarrow>
     c = 0x0009 \<or> c = 0x000A \<or> c = 0x000B \<or> c = 0x000C \<or> c = 0x000D \<or>
     c = 0x0020 \<or> c = 0x00A0 \<or> c = 0x1680 \<or> (0x2000 \<le> c \<and> c \<le> 0x200A) \<or>
     c = 0x2028 \<or> c = 0x2029 \<or> c = 0x202F \<or> c = 0x205F \<or> c = 0x3000 \<or>
     c = 0xFEFF"

definition trim :: "jsstring \<Rightarrow> jsstring" where
  "trim s = rev (dropWhile isWhiteSpace (rev (dropWhile isWhiteSpace s)))"

subsection \<open>State\<close>

text \<open>A task is \<^verbatim>\<open>{ id, text }\<close>; identifiers are integral numbers.\<close>

record task =
  task_id :: int
  task_text :: jsstring

record app_state =
  tasks :: "task list"
  inputValue :: jsstring

text \<open>The arguments of the two \<^verbatim>\<open>useState\<close> calls.\<close>

definition initial_state :: app_state where
  "initial_state =
     \<lparr>tasks = [\<lparr>task_id = 1, task_text = js ''Learn React''\<rparr>,
               \<lparr>task_id = 2, task_text = js ''Build a todo app''\<rparr>,
               \<lparr>task_id = 3, task_text = js ''Master JavaScript''\<rparr>],
      inputValue = []\<rparr>"

subsection \<open>Handlers\<close>

text \<open>
  \<^verbatim>\<open>addTask\<close> reads the clock with \<^verbatim>\<open>Date.now()\<close>; the reading is the parameter
  \<open>now\<close>. The guard returns before anything is written.
\<close>

definition addTask :: "int \<Rightarrow> app_state \<Rightarrow> app_state" where
  "addTask now st =
     (if trim (inputValue st) = [] then st
      else let newTask = \<lparr>task_id = now, task_text = inputValue st\<rparr>
           in st\<lparr>tasks := tasks st @ [newTask], inputValue := []\<rparr>)"

definition deleteTask :: "int \<Rightarrow> app_state \<Rightarrow> app_state" where
  "deleteTask i st = st\<lparr>tasks := filter (\<lambda>t. task_id t \<noteq> i) (tasks st)\<rparr>"

text \<open>The \<^verbatim>\<open>onChange\<close> handler of the input: \<^verbatim>\<open>setInputValue(e.target.value)\<close>.\<close>

definition setDraft :: "jsstring \<Rightarrow> app_state \<Rightarrow> app_state" where
  "setDraft v st = st\<lparr>inputValue := v\<rparr>"

definition handleKeyPress :: "int \<Rightarrow> jsstring \<Rightarrow> app_state \<Rightarrow> app_state" where
  "handleKeyPress now key st = (if key = js ''Enter'' then addTask now st else st)"

subsection \<open>Sequences of gestures\<close>

datatype gesture = AddTask int | DeleteTask int | SetDraft jsstring

fun step :: "app_state \<Rightarrow> gesture \<Rightarrow> app_state" where
  "step st (AddTask now) = addTask now st"
| "step st (DeleteTask i) = deleteTask i st"
| "step st (SetDraft v) = setDraft v st"

definition run :: "gesture list \<Rightarrow> app_state \<Rightarrow> app_state" where
  "run gs st = foldl step st gs"

text \<open>
  Two successful submissions whose clock readings coincide: the draft is typed, submitted,
  typed again and submitted again while \<^verbatim>\<open>Date.now()\<close> still returns the same millisecond.
\<close>

definition same_clock_adds :: app_state where
  "same_clock_adds =
     run [SetDraft (js ''a''), AddTask 1700000000000,
          SetDraft (js ''b''), AddTask 1700000000000] initial_state"

subsection \<open>View\<close>

text \<open>
  The part of the rendered tree that depends on the state: the value of the input, the
  tasks section (either the paragraph with the empty message or the list with one item
  per task) and the number in the statistics line.
\<close>

record task_item =
  item_key :: int
  item_text :: jsstring
  item_delete :: int

datatype tasks_section = EmptyMessage jsstring | TaskList "task_item list"

record view =
  input_value :: jsstring
  section_of :: tasks_section
  total_tasks :: nat

definition render_item :: "task \<Rightarrow> task_item" where
  "render_item t = \<lparr>item_key = task_id t, item_text = task_text t, item_delete = task_id t\<rparr>"

definition render :: "app_state \<Rightarrow> view" where
  "render st =
     \<lparr>input_value = inputValue st,
      section_of = (if length (tasks st) = 0
                    then EmptyMessage (js ''No tasks yet. Add one to get started!'')
                    else TaskList (map render_item (tasks st))),
      total_tasks = length (tasks st)\<rparr>"

fun shows_empty_message :: "tasks_section \<Rightarrow> bool" where
  "shows_empty_message (EmptyMessage m) = True"
| "shows_empty_message (TaskList rs) = False"

fun shows_task_list :: "tasks_section \<Rightarrow> bool" where
  "shows_task_list (EmptyMessage m) = False"
| "shows_task_list (TaskList rs) = True"

section \<open>Properties\<close>

subsection \<open>Whitespace\<close>

lemma trim_Nil_iff: "trim s = [] \<longleftrightarrow> (\<forall>c\<in>set s. isWhiteSpace c)"
proof
  assume "trim s = []"
  then have all: "\<forall>c\<in>set (dropWhile isWhiteSpace s). isWhiteSpace c"
    by (simp add: trim_def)
  have "dropWhile isWhiteSpace s = []"
  proof (rule ccontr)
    assume ne: "dropWhile isWhiteSpace s \<noteq> []"
    then have "\<not> isWhiteSpace (hd (dropWhile isWhiteSpace s))"
      by (rule hd_dropWhile)
    moreover from ne have "hd (dropWhile isWhiteSpace s) \<in> set (dropWhile isWhiteSpace s)"
      by (rule hd_in_set)
    ultimately show False
      using all by blast
  qed
  then show "\<forall>c\<in>set s. isWhiteSpace c"
    by simp
next
  assume "\<forall>c\<in>set s. isWhiteSpace c"
  then have eq: "dropWhile isWhiteSpace s = []"
    by simp
  show "trim s = []"
    unfolding trim_def eq by simp
qed

lemma same_clock_adds_tasks:
  "tasks same_clock_adds =
     [\<lparr>task_id = 1, task_text = js ''Learn React''\<rparr>,
      \<lparr>task_id = 2, task_text = js ''Build a todo app''\<rparr>,
      \<lparr>task_id = 3, task_text = js ''Master JavaScript''\<rparr>,
      \<lparr>task_id = 1700000000000, task_text = js ''a''\<rparr>,
      \<lparr>task_id = 1700000000000, task_text = js ''b''\<rparr>]"
  by (simp add: same_clock_adds_def run_def addTask_def setDraft_def initial_state_def
      js_def trim_def isWhiteSpace_def)

subsection \<open>addTask\<close>

text \<open>
  C1: for every state whose draft \<open>s\<close> is non-empty after trimming, \<open>addTask\<close> appends
  exactly one task at the end, with the text \<open>s\<close> as typed (untrimmed); the tasks that
  were there stay as they were and in their order, the size grows by exactly one and the
  draft becomes the empty string.
\<close>

theorem addTask_appends:
  assumes "inputValue st = s" and "trim s \<noteq> []"
  shows "tasks (addTask now st) = tasks st @ [\<lparr>task_id = now, task_text = s\<rparr>]
       \<and> take (length (tasks st)) (tasks (addTask now st)) = tasks st
       \<and> task_text (last (tasks (addTask now st))) = s
       \<and> length (tasks (addTask now st)) = length (tasks st) + 1
       \<and> inputValue (addTask now st) = []"
  using assms by (simp add: addTask_def)

theorem addTask_appends_witness:
  "inputValue (setDraft (js ''  Test task '') initial_state) = js ''  Test task ''
   \<and> trim (js ''  Test task '') \<noteq> []
   \<and> tasks (addTask 1700000000000 (setDraft (js ''  Test task '') initial_state)) =
       tasks (setDraft (js ''  Test task '') initial_state)
         @ [\<lparr>task_id = 1700000000000, task_text = js ''  Test task ''\<rparr>]
   \<and> length (tasks (addTask 1700000000000 (setDraft (js ''  Test task '') initial_state))) = 4
   \<and> inputValue (addTask 1700000000000 (setDraft (js ''  Test task '') initial_state)) = []"
proof -
  have draft: "inputValue (setDraft (js ''  Test task '') initial_state) = js ''  Test task ''"
    by (simp add: setDraft_def)
  have nonblank: "trim (js ''  Test task '') \<noteq> []"
    by (simp add: js_def trim_def isWhiteSpace_def)
  have seeded: "length (tasks (setDraft (js ''  Test task '') initial_state)) = 3"
    by (simp add: setDraft_def initial_state_def)
  from addTask_appends [OF draft nonblank, of 1700000000000] draft nonblank seeded
  show ?thesis by simp
qed

text \<open>
  C3: for every state whose draft consists of whitespace only (the empty string
  included), \<open>addTask\<close> returns the state as it was: collection and draft are untouched.
  The handler has no failing branch, so the result is always a state.
\<close>

theorem addTask_whitespace_noop:
  assumes "inputValue st = s" and "\<forall>c\<in>set s. isWhiteSpace c"
  shows "addTask now st = st"
  using assms by (simp add: addTask_def trim_Nil_iff)

theorem addTask_whitespace_noop_witness:
  "inputValue (setDraft (js ''   '') initial_state) = js ''   ''
   \<and> set (js ''   '') = {0x0020} \<and> isWhiteSpace 0x0020
   \<and> addTask 1700000000000 (setDraft (js ''   '') initial_state)
       = setDraft (js ''   '') initial_state
   \<and> inputValue initial_state = []
   \<and> addTask 1700000000000 initial_state = initial_state"
proof -
  have draft: "inputValue (setDraft (js ''   '') initial_state) = js ''   ''"
    by (simp add: setDraft_def)
  have blank: "\<forall>c\<in>set (js ''   ''). isWhiteSpace c"
    by (simp add: js_def isWhiteSpace_def)
  have draft0: "inputValue initial_state = []"
    by (simp add: initial_state_def)
  have blank0: "\<forall>c\<in>set ([] :: jsstring). isWhiteSpace c"
    by simp
  have spaces: "set (js ''   '') = {0x0020}" and space: "isWhiteSpace 0x0020"
    by (simp_all add: js_def isWhiteSpace_def)
  from addTask_whitespace_noop [OF draft blank, of 1700000000000]
    addTask_whitespace_noop [OF draft0 blank0, of 1700000000000] draft draft0 spaces space
  show ?thesis by simp
qed

text \<open>
  A clock reading that is not yet an identifier of the collection keeps the identifiers
  pairwise distinct.
\<close>

lemma addTask_fresh_distinct:
  assumes "distinct (map task_id (tasks st))" and "now \<notin> set (map task_id (tasks st))"
  shows "distinct (map task_id (tasks (addTask now st)))"
  using assms by (simp add: addTask_def Let_def)

text \<open>
  C4: the identifiers of the collection should be pairwise distinct in every state
  reached from the initial state by \<open>addTask\<close>, \<open>deleteTask\<close> and \<open>setDraft\<close>. The
  identifier of a new task is the clock reading, so two successful submissions within
  one millisecond give two tasks with the same identifier: the state \<open>same_clock_adds\<close>
  is reached from the initial state and its last two identifiers are equal.
\<close>

theorem same_clock_adds_duplicate_id:
  "map task_id (tasks same_clock_adds) = [1, 2, 3, 1700000000000, 1700000000000]
   \<and> \<not> distinct (map task_id (tasks same_clock_adds))"
  by (simp add: same_clock_adds_tasks)

subsection \<open>deleteTask\<close>

lemma filter_other_ids:
  "i \<notin> set (map task_id xs) \<Longrightarrow> filter (\<lambda>t. task_id t \<noteq> i) xs = xs"
  by (induction xs) auto

text \<open>
  Where exactly one task carries the identifier, \<open>deleteTask\<close> takes out that task and
  nothing else: the tasks before it and the tasks after it stay, in their order.
\<close>

lemma deleteTask_single_match:
  assumes "length (filter (\<lambda>t. task_id t = i) (tasks st)) = 1"
  shows "length (tasks (deleteTask i st)) + 1 = length (tasks st)
       \<and> (\<exists>xs t ys. tasks st = xs @ t # ys \<and> task_id t = i
            \<and> tasks (deleteTask i st) = xs @ ys)"
proof -
  from assms obtain t where one: "filter (\<lambda>t. task_id t = i) (tasks st) = [t]"
    by (auto simp add: length_Suc_conv)
  then obtain xs ys where split: "tasks st = xs @ t # ys"
    and before: "\<forall>u\<in>set xs. task_id u \<noteq> i" and ti: "task_id t = i"
    and after: "filter (\<lambda>t. task_id t = i) ys = []"
    by (auto simp add: filter_eq_Cons_iff)
  from before have keep_xs: "filter (\<lambda>t. task_id t \<noteq> i) xs = xs"
    by simp
  from after have "\<forall>u\<in>set ys. task_id u \<noteq> i"
    by (simp add: filter_empty_conv)
  then have keep_ys: "filter (\<lambda>t. task_id t \<noteq> i) ys = ys"
    by simp
  from split ti keep_xs keep_ys have res: "tasks (deleteTask i st) = xs @ ys"
    by (simp add: deleteTask_def)
  from split res have "length (tasks (deleteTask i st)) + 1 = length (tasks st)"
    by simp
  with split ti res show ?thesis
    by blast
qed

text \<open>
  C2: for every state and every identifier of the collection, \<open>deleteTask\<close> should make
  the collection exactly one smaller and take out only the task with that identifier.
  In the state \<open>same_clock_adds\<close>, reached from the initial state by two submissions at
  one clock reading, the identifier 1700000000000 is carried by the fourth and the fifth
  task; deleting it takes both out, so the five tasks become the three seeded ones.
\<close>

theorem deleteTask_same_clock_removes_two:
  "1700000000000 \<in> set (map task_id (tasks same_clock_adds))
   \<and> length (tasks same_clock_adds) = 5
   \<and> length (tasks (deleteTask 1700000000000 same_clock_adds)) = 3
   \<and> tasks (deleteTask 1700000000000 same_clock_adds) = tasks initial_state"
  by (simp add: same_clock_adds_tasks deleteTask_def initial_state_def)

text \<open>
  C6: for every state and every identifier that is not in the collection, \<open>deleteTask\<close>
  returns the state as it was; and for every identifier, deleting twice gives the same
  state as deleting once.
\<close>

theorem deleteTask_absent_noop_idempotent:
  "(i \<notin> set (map task_id (tasks st)) \<longrightarrow> deleteTask i st = st)
   \<and> deleteTask j (deleteTask j st) = deleteTask j st"
  by (simp add: deleteTask_def filter_other_ids)

theorem deleteTask_absent_noop_idempotent_witness:
  "99 \<notin> set (map task_id (tasks initial_state))
   \<and> deleteTask 99 initial_state = initial_state
   \<and> deleteTask 2 (deleteTask 2 initial_state) = deleteTask 2 initial_state"
proof -
  have absent: "99 \<notin> set (map task_id (tasks initial_state))"
    by (simp add: initial_state_def)
  from deleteTask_absent_noop_idempotent [of 99 initial_state 2] absent
  show ?thesis by blast
qed

text \<open>
  C10: for every state and every identifier \<open>i\<close>, no task with identifier \<open>i\<close> is left
  after \<open>deleteTask i\<close>, however many tasks carried it before; the draft is unchanged.
\<close>

theorem deleteTask_removes_every_match:
  "i \<notin> set (map task_id (tasks (deleteTask i st)))
   \<and> filter (\<lambda>t. task_id t = i) (tasks (deleteTask i st)) = []
   \<and> inputValue (deleteTask i st) = inputValue st"
  by (auto simp add: deleteTask_def filter_empty_conv)

text \<open>
  C9: the initial state holds the three seeded tasks in their order, and deleting the
  identifier of the first one leaves two tasks, with the texts of the second and the
  third.
\<close>

theorem delete_first_seeded:
  "length (tasks initial_state) = 3
   \<and> map task_text (tasks initial_state) =
       [js ''Learn React'', js ''Build a todo app'', js ''Master JavaScript'']
   \<and> length (tasks (deleteTask (task_id (hd (tasks initial_state))) initial_state)) = 2
   \<and> map task_text (tasks (deleteTask (task_id (hd (tasks initial_state))) initial_state)) =
       [js ''Build a todo app'', js ''Master JavaScript'']"
  by (simp add: initial_state_def deleteTask_def)

subsection \<open>setDraft\<close>

text \<open>
  C7: for every state and every string, \<open>setDraft\<close> stores the string as it is, with no
  trimming and no validation, and leaves the task collection unchanged.
\<close>

theorem setDraft_verbatim:
  "inputValue (setDraft v st) = v \<and> tasks (setDraft v st) = tasks st"
  by (simp add: setDraft_def)

subsection \<open>handleKeyPress\<close>

text \<open>
  C8: the key handler is \<open>addTask\<close> on the current state when the key is \<^verbatim>\<open>Enter\<close>,
  and for every other key it returns the state as it was, collection and draft.
\<close>

theorem handleKeyPress_enter_only:
  "(key = js ''Enter'' \<longrightarrow> handleKeyPress now key st = addTask now st)
   \<and> (key \<noteq> js ''Enter'' \<longrightarrow> handleKeyPress now key st = st)"
  by (simp add: handleKeyPress_def)

theorem handleKeyPress_enter_only_witness:
  "handleKeyPress 1700000000000 (js ''Enter'') (setDraft (js ''x'') initial_state)
     = addTask 1700000000000 (setDraft (js ''x'') initial_state)
   \<and> js ''a'' \<noteq> js ''Enter''
   \<and> handleKeyPress 1700000000000 (js ''a'') (setDraft (js ''x'') initial_state)
     = setDraft (js ''x'') initial_state"
proof -
  have other: "js ''a'' \<noteq> js ''Enter''"
    by (simp add: js_def)
  from handleKeyPress_enter_only
      [of "js ''Enter''" 1700000000000 "setDraft (js ''x'') initial_state"]
    handleKeyPress_enter_only
      [of "js ''a''" 1700000000000 "setDraft (js ''x'') initial_state"] other
  show ?thesis by blast
qed

subsection \<open>View\<close>

text \<open>
  C5: for every collection, the view shows the empty message exactly when the size is
  0 and the task list exactly when the size is greater than 0; it shows one of the two
  and never both; and the empty message is shown exactly when the displayed count is 0.
\<close>

theorem render_modes:
  "(shows_empty_message (section_of (render st)) \<longleftrightarrow> length (tasks st) = 0)
   \<and> (shows_task_list (section_of (render st)) \<longleftrightarrow> 0 < length (tasks st))
   \<and> (shows_empty_message (section_of (render st))
        \<noteq> shows_task_list (section_of (render st)))
   \<and> (shows_empty_message (section_of (render st)) \<longleftrightarrow> total_tasks (render st) = 0)"
  by (simp add: render_def)

end
